theory Spec2Isabelle
  imports Main
begin

section \<open>Python strings and dictionaries\<close>

text \<open>
  A Python \<open>str\<close> is a sequence of Unicode code points; it is modelled as the list of
  its code points. \<open>codes\<close> turns an ASCII literal into such a list.
\<close>

type_synonym pystr = "nat list"

definition codes :: "string \<Rightarrow> pystr" where
  "codes s = map of_char s"

text \<open>
  \<open>str.strip()\<close> removes the characters for which \<open>str.isspace()\<close> holds from both
  ends. \<open>str.splitlines()\<close> breaks at the line boundaries of the language reference
  (LF, CR, CR followed by LF, VT, FF, the code points 28, 29, 30 and 133, U+2028 and
  U+2029), yields no empty last line after a final boundary, and yields the empty list
  for the empty string.
\<close>

definition is_space :: "nat \<Rightarrow> bool" where
  "is_space c \<longleftrightarrow>
     (9 \<le> c \<and> c \<le> 13) \<or> (28 \<le> c \<and> c \<le> 32) \<or> c = 133 \<or> c = 160 \<or> c = 5760
     \<or> (8192 \<le> c \<and> c \<le> 8202) \<or> c = 8232 \<or> c = 8233 \<or> c = 8239 \<or> c = 8287
     \<or> c = 12288"

definition is_linebreak :: "nat \<Rightarrow> bool" where
  "is_linebreak c \<longleftrightarrow>
     (10 \<le> c \<and> c \<le> 13) \<or> (28 \<le> c \<and> c \<le> 30) \<or> c = 133 \<or> c = 8232 \<or> c = 8233"

definition strip :: "pystr \<Rightarrow> pystr" where
  "strip s = rev (dropWhile is_space (rev (dropWhile is_space s)))"

text \<open>
  The flag of \<open>splitlines_aux\<close> records that the previous character was a carriage
  return, whose line has been emitted already: a line feed right after it belongs to the
  same boundary.
\<close>

fun splitlines_aux :: "bool \<Rightarrow> pystr \<Rightarrow> pystr \<Rightarrow> pystr list" where
  "splitlines_aux cr acc [] = (if acc = [] then [] else [acc])"
| "splitlines_aux cr acc (c # cs) =
     (if cr \<and> c = 10 then splitlines_aux False [] cs
      else if is_linebreak c then acc # splitlines_aux (c = 13) [] cs
      else splitlines_aux False (acc @ [c]) cs)"

definition splitlines :: "pystr \<Rightarrow> pystr list" where
  "splitlines text = splitlines_aux False [] text"

text \<open>\<open>sep.join(lines)\<close> with a single line feed as the separator.\<close>

fun join_nl :: "pystr list \<Rightarrow> pystr" where
  "join_nl [] = []"
| "join_nl [l] = l"
| "join_nl (l # m # ls) = l @ [10] @ join_nl (m # ls)"

text \<open>
  A \<open>dict\<close> keeps its keys in insertion order: assigning to a key that is present
  replaces the value where the key stands, assigning to a new key appends it.
\<close>

type_synonym ('k, 'v) dict = "('k \<times> 'v) list"

fun dict_set :: "'k \<Rightarrow> 'v \<Rightarrow> ('k, 'v) dict \<Rightarrow> ('k, 'v) dict" where
  "dict_set k v [] = [(k, v)]"
| "dict_set k v ((k', v') # kvs) =
     (if k' = k then (k', v) # kvs else (k', v') # dict_set k v kvs)"

definition dict_has :: "('k, 'v) dict \<Rightarrow> 'k \<Rightarrow> bool" where
  "dict_has d k \<longleftrightarrow> k \<in> set (map fst d)"

definition dict_get :: "('k, 'v) dict \<Rightarrow> 'k \<Rightarrow> 'v option" where
  "dict_get d k = map_of d k"

section \<open>The mapping file format\<close>

text \<open>
  \<open>parse_mapping_txt\<close>: one step of the loop over the lines, then the loop. The character
  \<open>#\<close> is code point 35 and \<open>=\<close> is code point 61; \<open>line.split("=", 1)\<close> cuts at the
  first \<open>=\<close>.
\<close>

definition parse_line :: "(pystr, pystr) dict \<Rightarrow> pystr \<Rightarrow> (pystr, pystr) dict" where
  "parse_line mapping raw =
     (let line = strip raw in
      if line = [] \<or> hd line = 35 then mapping
      else if 61 \<in> set line then
        (let old = strip (takeWhile (\<lambda>c. c \<noteq> 61) line);
             new = strip (tl (dropWhile (\<lambda>c. c \<noteq> 61) line))
         in if old \<noteq> [] then dict_set old new mapping else mapping)
      else mapping)"

definition parse_mapping_txt :: "pystr \<Rightarrow> (pystr, pystr) dict" where
  "parse_mapping_txt text = foldl parse_line [] (splitlines text)"

definition mapping_to_txt :: "(pystr, pystr) dict \<Rightarrow> pystr" where
  "mapping_to_txt mapping =
     join_nl ([codes ''# bone_old=bone_new'', codes ''# lines starting with # are comments'']
              @ map (\<lambda>(k, v). k @ [61] @ v) mapping)"

section \<open>Armatures and the mapping table\<close>

text \<open>
  The host scene is modelled by the fields the add-on reads and writes. A bone carries its
  name and deform flag, whether it has a parent, and the constraints of its pose bone.
  A constraint type without a sub-target has \<open>subtarget = None\<close>. An object pointer, such
  as a constraint's target, is the name of the object. Name-keyed lookups of a host
  collection (\<open>bones[name]\<close>, \<open>pose.bones.get(name)\<close>) address the first element with
  that name.
\<close>

datatype obj_type = ARMATURE | MESH | EMPTY

datatype con_kind = COPY_ROTATION | COPY_TRANSFORMS | OTHER_KIND

record constraint =
  con_name :: pystr
  con_kind :: con_kind
  con_target :: "pystr option"
  subtarget :: "pystr option"
  mix_mode :: pystr
  target_space :: pystr
  owner_space :: pystr
  use_xyz :: "bool \<times> bool \<times> bool"

record bone =
  name :: pystr
  use_deform :: bool
  has_parent :: bool
  constraints :: "constraint list"

record armature =
  obj_name :: pystr
  arm_type :: obj_type
  bones :: "bone list"

record BoneMapItem =
  original_name :: pystr
  current_name :: pystr
  target_name :: pystr
  cap_src :: pystr
  cap_tgt :: pystr
  mark :: bool

datatype side = TARGET | SOURCE

datatype follow_mode = ROT | XFORM

datatype export_format = FBX | BVH

text \<open>
  The two armature slots of the property group hold two different objects: each slot is
  modelled by its own value.
\<close>

record AJ_Props =
  bone_map :: "BoneMapItem list"
  mapping_path :: pystr
  active_index :: int
  current_armature_side :: side
  source_armature :: "armature option"
  target_armature :: "armature option"
  follow_mode :: follow_mode
  live_follow_a2b :: bool
  live_follow_b2a :: bool
  export_format :: export_format
  export_side :: side
  include_mesh :: bool
  rename_on_export :: bool

datatype status = FINISHED | CANCELLED

datatype level = INFO | WARNING | ERROR

text \<open>The test \<open>arm and arm.type == 'ARMATURE'\<close>.\<close>

definition valid_armature :: "armature option \<Rightarrow> bool" where
  "valid_armature a = (case a of None \<Rightarrow> False | Some arm \<Rightarrow> arm_type arm = ARMATURE)"

definition bone_names :: "armature option \<Rightarrow> pystr list" where
  "bone_names a = (case a of None \<Rightarrow> [] | Some arm \<Rightarrow> map name (bones arm))"

text \<open>\<open>_bone_exists\<close>: without an armature the attribute access raises and the result is False.\<close>

definition bone_exists :: "armature option \<Rightarrow> pystr \<Rightarrow> bool" where
  "bone_exists a n = (case a of None \<Rightarrow> False | Some arm \<Rightarrow> n \<noteq> [] \<and> n \<in> set (map name (bones arm)))"

section \<open>Loading a mapping file\<close>

text \<open>
  The file system answers a read of a path with the decoded text or with an error
  (\<open>open\<close> or \<open>read\<close> raising). \<open>_parse_mapping_file\<close> passes the error on.
\<close>

datatype io_error = IOError

definition parse_mapping_file :: "(pystr \<Rightarrow> io_error + pystr) \<Rightarrow> pystr \<Rightarrow> io_error + (pystr, pystr) dict" where
  "parse_mapping_file fs path =
     (case fs path of Inl e \<Rightarrow> Inl e | Inr text \<Rightarrow> Inr (parse_mapping_txt text))"

text \<open>
  \<open>_prefill_current_from_arm\<close>: the loop body acts on each row by itself, so the loop is a
  map over the rows; \<open>prefill_hit\<close> tells whether the body counts the row.
\<close>

definition ref_armature :: "AJ_Props \<Rightarrow> armature option" where
  "ref_armature props =
     (if current_armature_side props = TARGET then target_armature props else source_armature props)"

definition prefill_row :: "armature option \<Rightarrow> bool \<Rightarrow> BoneMapItem \<Rightarrow> BoneMapItem" where
  "prefill_row arm only_if_blank it =
     (if only_if_blank \<and> current_name it \<noteq> [] then it
      else if bone_exists arm (original_name it) then it\<lparr>current_name := original_name it\<rparr>
      else if bone_exists arm (target_name it) then it\<lparr>current_name := target_name it\<rparr>
      else it)"

definition prefill_hit :: "armature option \<Rightarrow> bool \<Rightarrow> BoneMapItem \<Rightarrow> bool" where
  "prefill_hit arm only_if_blank it \<longleftrightarrow>
     \<not> (only_if_blank \<and> current_name it \<noteq> [])
     \<and> (bone_exists arm (original_name it) \<or> bone_exists arm (target_name it))"

definition prefill_current_from_arm :: "AJ_Props \<Rightarrow> bool \<Rightarrow> nat \<times> AJ_Props" where
  "prefill_current_from_arm props only_if_blank =
     (let arm = ref_armature props in
      if \<not> valid_armature arm then (0, props)
      else (length (filter (prefill_hit arm only_if_blank) (bone_map props)),
            props\<lparr>bone_map := map (prefill_row arm only_if_blank) (bone_map props)\<rparr>))"

text \<open>
  The merge loop of \<open>AJ_OT_bone_map_load_dialog.execute\<close>. \<open>existing_index\<close> is built once,
  before the loop, from the rows then present; a later row with the same original name
  replaces an earlier one in it. The loop state is the table and the two counters.
\<close>

definition existing_index_of :: "BoneMapItem list \<Rightarrow> (pystr, nat) dict" where
  "existing_index_of rows =
     foldl (\<lambda>d (i, it). dict_set (original_name it) i d) [] (enumerate 0 rows)"

definition new_or_old :: "pystr \<Rightarrow> pystr \<Rightarrow> pystr" where
  "new_or_old new old = (if new \<noteq> [] then new else old)"

definition merge_entry ::
  "(pystr, nat) dict \<Rightarrow> BoneMapItem list \<times> nat \<times> nat \<Rightarrow> pystr \<times> pystr \<Rightarrow> BoneMapItem list \<times> nat \<times> nat" where
  "merge_entry existing_index st e =
     (case st of (rows, updated, added) \<Rightarrow>
      case e of (old, new) \<Rightarrow>
      (case dict_get existing_index old of
         Some i \<Rightarrow>
           (rows[i := (rows ! i)\<lparr>target_name := new_or_old new old, cap_src := old,
                                 cap_tgt := new_or_old new old\<rparr>], updated + 1, added)
       | None \<Rightarrow>
           (rows @ [\<lparr>original_name = old, current_name = [], target_name = new_or_old new old,
                     cap_src = old, cap_tgt = new_or_old new old, mark = False\<rparr>],
            updated, added + 1)))"

definition merge_mapping :: "BoneMapItem list \<Rightarrow> (pystr, pystr) dict \<Rightarrow> BoneMapItem list \<times> nat \<times> nat" where
  "merge_mapping rows mapping = foldl (merge_entry (existing_index_of rows)) (rows, 0, 0) mapping"

text \<open>
  \<open>AJ_OT_bone_map_load_dialog.execute\<close>. \<open>ensure_txt\<close> stands for the host's
  \<open>bpy.path.ensure_ext(path, ".txt")\<close>. The result is the returned status, the level of
  the report and the property group afterwards. The colouring of mapped bones and the bone
  selection that follows a change of the active row touch no field of the table and are
  left out.
\<close>

definition load_execute ::
  "(pystr \<Rightarrow> pystr) \<Rightarrow> (pystr \<Rightarrow> io_error + pystr) \<Rightarrow> AJ_Props \<Rightarrow> pystr \<Rightarrow> status \<times> level \<times> AJ_Props" where
  "load_execute ensure_txt fs props path =
     (if path = [] then (CANCELLED, ERROR, props)
      else case parse_mapping_file fs path of
        Inl e \<Rightarrow> (CANCELLED, ERROR, props)
      | Inr mapping \<Rightarrow>
          (let rows = fst (merge_mapping (bone_map props) mapping);
               props1 = props\<lparr>bone_map := rows, mapping_path := ensure_txt path\<rparr>;
               props2 = (if length rows \<noteq> 0 \<and> active_index props1 \<ge> int (length rows)
                         then props1\<lparr>active_index := int (length rows) - 1\<rparr> else props1)
           in (FINISHED, INFO, snd (prefill_current_from_arm props2 True))))"

section \<open>Example data\<close>

definition mk_bone :: "pystr \<Rightarrow> bool \<Rightarrow> bone" where
  "mk_bone n d = \<lparr>name = n, use_deform = d, has_parent = False, constraints = []\<rparr>"

definition mk_row :: "pystr \<Rightarrow> pystr \<Rightarrow> pystr \<Rightarrow> BoneMapItem" where
  "mk_row ori cur tgt =
     \<lparr>original_name = ori, current_name = cur, target_name = tgt, cap_src = [], cap_tgt = [],
      mark = False\<rparr>"

definition example_arm :: armature where
  "example_arm =
     \<lparr>obj_name = codes ''Rig'', arm_type = ARMATURE,
      bones = [mk_bone (codes ''Hips'') True, mk_bone (codes ''Spine'') False]\<rparr>"

definition example_props :: AJ_Props where
  "example_props =
     \<lparr>bone_map = [mk_row (codes ''Hips'') (codes ''Hips'') (codes ''Pelvis''),
                  mk_row (codes ''Spine'') [] (codes ''Spine'')],
      mapping_path = [], active_index = 0, current_armature_side = TARGET,
      source_armature = None, target_armature = Some example_arm,
      follow_mode = ROT, live_follow_a2b = False, live_follow_b2a = False,
      export_format = FBX, export_side = TARGET, include_mesh = True,
      rename_on_export = True\<rparr>"

section \<open>Load failure\<close>

text \<open>
  C7. When reading the mapping file fails, Load returns CANCELLED with an ERROR report
  and the property group, with the mapping table and \<open>mapping_path\<close> in it, is the one
  it was given.
\<close>

theorem load_failure_leaves_table:
  "fs path = Inl e \<Longrightarrow> load_execute ensure_txt fs props path = (CANCELLED, ERROR, props)"
  by (simp add: load_execute_def parse_mapping_file_def)

theorem load_failure_leaves_table_witness:
  "(\<lambda>p. Inl IOError :: io_error + pystr) (codes ''m.txt'') = Inl IOError
   \<and> load_execute (\<lambda>p. p) (\<lambda>p. Inl IOError) example_props (codes ''m.txt'')
       = (CANCELLED, ERROR, example_props)"
  using load_failure_leaves_table
    [of "\<lambda>p. Inl IOError" "codes ''m.txt''" IOError "\<lambda>p. p" example_props]
  by simp

end
